theory Spec2Isabelle
  imports Complex_Main "HOL-Library.AList"
begin

section \<open>Python values used by the client\<close>

text \<open>
  The client of \<^verbatim>\<open>polaris_circle/client.py\<close> handles strings, integers, floats that
  are only stored and passed on (modelled as \<^typ>\<open>real\<close>, since no arithmetic is done on
  them), \<^verbatim>\<open>Optional\<close> arguments (\<^typ>\<open>'a option\<close>, \<^verbatim>\<open>None\<close> being \<^term>\<open>None\<close>),
  JSON-like dictionaries and two standard-library value types, \<^verbatim>\<open>datetime\<close> and
  \<^verbatim>\<open>Decimal\<close>.
\<close>

datatype json =
    JNull
  | JBool bool
  | JInt int
  | JStr string
  | JList "json list"
  | JObj "(string \<times> json) list"

text \<open>A dictionary with string keys keeps insertion order; assignment \<^verbatim>\<open>d[k] = v\<close>
  replaces the value of an existing key in place and appends a new key.\<close>

type_synonym dict = "(string \<times> json) list"

definition dict_set :: "dict \<Rightarrow> string \<Rightarrow> json \<Rightarrow> dict" where
  "dict_set d k v = AList.update k v d"

definition dict_get :: "dict \<Rightarrow> string \<Rightarrow> json option" where
  "dict_get d k = map_of d k"

text \<open>Member access into a JSON object; anything else has no members.\<close>

fun member :: "json \<Rightarrow> string \<Rightarrow> json option" where
  "member (JObj kvs) k = map_of kvs k"
| "member _ k = None"

text \<open>Truthiness, as \<^verbatim>\<open>if x:\<close> tests it: \<^verbatim>\<open>None\<close>, the empty string and zero are false;
  a \<^verbatim>\<open>datetime\<close> object is always true.\<close>

fun truthy_str :: "string option \<Rightarrow> bool" where
  "truthy_str None = False"
| "truthy_str (Some s) = (s \<noteq> [])"

fun truthy_int :: "int option \<Rightarrow> bool" where
  "truthy_int None = False"
| "truthy_int (Some n) = (n \<noteq> 0)"

fun truthy_float :: "real option \<Rightarrow> bool" where
  "truthy_float None = False"
| "truthy_float (Some x) = (x \<noteq> 0)"

subsection \<open>Decimal numerals of natural numbers\<close>

definition digit_char :: "nat \<Rightarrow> char" where
  "digit_char n = ''0123456789'' ! (n mod 10)"

fun str_nat :: "nat \<Rightarrow> string" where
  "str_nat n = (if n < 10 then [digit_char n] else str_nat (n div 10) @ [digit_char (n mod 10)])"

declare str_nat.simps [simp del]

text \<open>\<^verbatim>\<open>'%0wd' % n\<close> for a non-negative \<^verbatim>\<open>n\<close>: at least \<^verbatim>\<open>w\<close> digits, zero-filled on the left.\<close>

definition zfill :: "nat \<Rightarrow> string \<Rightarrow> string" where
  "zfill w s = replicate (w - length s) (CHR ''0'') @ s"

definition is_digit :: "char \<Rightarrow> bool" where
  "is_digit c = (c \<in> set ''0123456789'')"

text \<open>The number a digit string denotes (what \<^verbatim>\<open>int(s)\<close> returns for it).\<close>

definition digit_val :: "char \<Rightarrow> nat" where
  "digit_val c = of_char c - 48"

definition nat_of_digits :: "string \<Rightarrow> nat" where
  "nat_of_digits s = foldl (\<lambda>acc c. 10 * acc + digit_val c) 0 s"

subsection \<open>datetime and strftime\<close>

text \<open>
  A \<^verbatim>\<open>datetime\<close> object stores its fields as given to the constructor; \<^verbatim>\<open>tzinfo\<close> is
  \<^verbatim>\<open>None\<close> for a naive value and otherwise carries the UTC offset (here in minutes).
  The constructor accepts exactly the field ranges of \<open>valid_datetime\<close>.
\<close>

record datetime =
  year :: nat
  month :: nat
  day :: nat
  hour :: nat
  minute :: nat
  second :: nat
  microsecond :: nat
  tzinfo :: "int option"

definition is_leap :: "nat \<Rightarrow> bool" where
  "is_leap y = (y mod 4 = 0 \<and> (y mod 100 \<noteq> 0 \<or> y mod 400 = 0))"

definition days_in_month :: "nat \<Rightarrow> nat \<Rightarrow> nat" where
  "days_in_month y m =
     (if m = 2 then (if is_leap y then 29 else 28)
      else if m = 4 \<or> m = 6 \<or> m = 9 \<or> m = 11 then 30 else 31)"

definition valid_datetime :: "datetime \<Rightarrow> bool" where
  "valid_datetime dt =
     (1 \<le> year dt \<and> year dt \<le> 9999 \<and> 1 \<le> month dt \<and> month dt \<le> 12 \<and>
      1 \<le> day dt \<and> day dt \<le> days_in_month (year dt) (month dt) \<and>
      hour dt < 24 \<and> minute dt < 60 \<and> second dt < 60 \<and> microsecond dt < 1000000)"

text \<open>
  \<^verbatim>\<open>datetime.strftime\<close> expands \<^verbatim>\<open>%f\<close> itself, as \<^verbatim>\<open>'%06d' % microsecond\<close>, and hands the
  rest of the format to the C library's \<^verbatim>\<open>strftime\<close>. There \<^verbatim>\<open>%m %d %H %M %S\<close> are two
  digits, zero-filled. \<^verbatim>\<open>%Y\<close> is the year as a decimal number: the GNU C library writes it
  without padding (\<^verbatim>\<open>999\<close> for the year 999), other C libraries and CPython from 3.13
  on fill it to four digits. The flag \<open>pad_year\<close> says which of the two the platform does.
  Only the directives of the client's format are expanded; any other character pair is
  left as it is.
\<close>

definition directive :: "bool \<Rightarrow> datetime \<Rightarrow> char \<Rightarrow> string" where
  "directive pad_year dt c =
     (if c = CHR ''Y'' then (if pad_year then zfill 4 (str_nat (year dt)) else str_nat (year dt))
      else if c = CHR ''m'' then zfill 2 (str_nat (month dt))
      else if c = CHR ''d'' then zfill 2 (str_nat (day dt))
      else if c = CHR ''H'' then zfill 2 (str_nat (hour dt))
      else if c = CHR ''M'' then zfill 2 (str_nat (minute dt))
      else if c = CHR ''S'' then zfill 2 (str_nat (second dt))
      else if c = CHR ''f'' then zfill 6 (str_nat (microsecond dt))
      else if c = CHR ''%'' then [CHR ''%'']
      else [CHR ''%'', c])"

fun strftime :: "bool \<Rightarrow> datetime \<Rightarrow> string \<Rightarrow> string" where
  "strftime pad_year dt [] = []"
| "strftime pad_year dt [c] = [c]"
| "strftime pad_year dt (c # d # rest) =
     (if c = CHR ''%'' then directive pad_year dt d @ strftime pad_year dt rest
      else c # strftime pad_year dt (d # rest))"

definition CIRCLE_DATETIME_FORMAT :: string where
  "CIRCLE_DATETIME_FORMAT = ''%Y-%m-%dT%H:%M:%S.%fZ''"

subsection \<open>Decimal and str\<close>

text \<open>
  A \<^verbatim>\<open>Decimal\<close> is a sign, a coefficient kept as its string of digits and an exponent
  (\<^verbatim>\<open>Decimal("12.50")\<close> is sign 0, digits \<^verbatim>\<open>1250\<close>, exponent \<^verbatim>\<open>-2\<close>), or one of the special
  values. The coefficient of a \<^verbatim>\<open>Decimal\<close> object has no leading zero (it is \<^verbatim>\<open>0\<close> itself for
  a zero), and the payload of a NaN has none either (it may be empty): \<open>well_formed\<close>.
  \<open>decimal_str\<close> is \<^verbatim>\<open>Decimal.__str__\<close>, the scientific string of the General Decimal
  Arithmetic specification; the letter of the exponent is \<^verbatim>\<open>E\<close> or \<^verbatim>\<open>e\<close> as the \<^verbatim>\<open>capitals\<close>
  flag of the calling thread's decimal context says.
\<close>

datatype decimal =
    Finite bool string int
  | Infinity bool
  | NaN bool string
  | SNaN bool string

definition sign_str :: "bool \<Rightarrow> string" where
  "sign_str neg = (if neg then ''-'' else '''')"

text \<open>\<^verbatim>\<open>'%+d' % n\<close>: the sign always written.\<close>

definition fmt_plus_d :: "int \<Rightarrow> string" where
  "fmt_plus_d n = (if n < 0 then CHR ''-'' # str_nat (nat (- n)) else CHR ''+'' # str_nat (nat n))"

definition wf_digits :: "string \<Rightarrow> bool" where
  "wf_digits ds = (list_all is_digit ds \<and> (ds = [] \<or> hd ds \<noteq> CHR ''0''))"

fun well_formed :: "decimal \<Rightarrow> bool" where
  "well_formed (Finite neg digits e) = (digits = ''0'' \<or> digits \<noteq> [] \<and> wf_digits digits)"
| "well_formed (Infinity neg) = True"
| "well_formed (NaN neg payload) = wf_digits payload"
| "well_formed (SNaN neg payload) = wf_digits payload"

fun decimal_str :: "bool \<Rightarrow> decimal \<Rightarrow> string" where
  "decimal_str capitals (Infinity neg) = sign_str neg @ ''Infinity''"
| "decimal_str capitals (NaN neg payload) = sign_str neg @ ''NaN'' @ payload"
| "decimal_str capitals (SNaN neg payload) = sign_str neg @ ''sNaN'' @ payload"
| "decimal_str capitals (Finite neg digits e) =
     (let leftdigits = e + int (length digits);
          dotplace = (if e \<le> 0 \<and> leftdigits > - 6 then leftdigits else 1);
          intpart = (if dotplace \<le> 0 then ''0''
                     else if dotplace \<ge> int (length digits)
                       then digits @ replicate (nat (dotplace - int (length digits))) (CHR ''0'')
                     else take (nat dotplace) digits);
          fracpart = (if dotplace \<le> 0
                        then CHR ''.'' # replicate (nat (- dotplace)) (CHR ''0'') @ digits
                      else if dotplace \<ge> int (length digits) then ''''
                      else CHR ''.'' # drop (nat dotplace) digits);
          exp = (if leftdigits = dotplace then ''''
                 else (if capitals then CHR ''E'' else CHR ''e'') #
                      fmt_plus_d (leftdigits - dotplace))
      in sign_str neg @ intpart @ fracpart @ exp)"

text \<open>\<^verbatim>\<open>amount: Union[Decimal, str]\<close>, and \<^verbatim>\<open>str(amount)\<close>: a string is returned as it is.\<close>

datatype amount = AmountDecimal decimal | AmountStr string

fun py_str :: "bool \<Rightarrow> amount \<Rightarrow> string" where
  "py_str capitals (AmountDecimal d) = decimal_str capitals d"
| "py_str capitals (AmountStr s) = s"

text \<open>
  Reading a decimal back from its string, by the grammar of the \<^verbatim>\<open>Decimal\<close> constructor
  for the strings \<open>decimal_str\<close> writes: a sign, then \<^verbatim>\<open>Infinity\<close>, or \<^verbatim>\<open>NaN\<close> or \<^verbatim>\<open>sNaN\<close>
  with its payload, or digits with an optional fraction and an optional exponent. The
  coefficient is \<^verbatim>\<open>str(int(intpart + fracpart))\<close>, the exponent the written one less the
  length of the fraction.
\<close>

definition strip_zeros :: "string \<Rightarrow> string" where
  "strip_zeros ds = dropWhile (\<lambda>c. c = CHR ''0'') ds"

definition str_int_of :: "string \<Rightarrow> string" where
  "str_int_of ds = (if strip_zeros ds = [] then ''0'' else strip_zeros ds)"

definition parse_exp :: "string \<Rightarrow> int option" where
  "parse_exp s =
     (let neg = (s \<noteq> [] \<and> hd s = CHR ''-'');
          ds = (if s \<noteq> [] \<and> (hd s = CHR ''-'' \<or> hd s = CHR ''+'') then tl s else s)
      in if ds = [] \<or> \<not> list_all is_digit ds then None
         else Some (if neg then - int (nat_of_digits ds) else int (nat_of_digits ds)))"

definition number_of_str :: "bool \<Rightarrow> string \<Rightarrow> decimal option" where
  "number_of_str neg body =
     (let intpart = takeWhile is_digit body;
          rest = dropWhile is_digit body;
          dot = (rest \<noteq> [] \<and> hd rest = CHR ''.'');
          fracpart = (if dot then takeWhile is_digit (tl rest) else []);
          rest = (if dot then dropWhile is_digit (tl rest) else rest)
      in if intpart @ fracpart = [] then None
         else if rest = []
           then Some (Finite neg (str_int_of (intpart @ fracpart)) (- int (length fracpart)))
         else if hd rest = CHR ''E'' \<or> hd rest = CHR ''e''
           then (case parse_exp (tl rest) of
                   None \<Rightarrow> None
                 | Some x \<Rightarrow> Some (Finite neg (str_int_of (intpart @ fracpart))
                                     (x - int (length fracpart))))
         else None)"

definition Decimal_of_str :: "string \<Rightarrow> decimal option" where
  "Decimal_of_str s =
     (let neg = (s \<noteq> [] \<and> hd s = CHR ''-'');
          body = (if s \<noteq> [] \<and> (hd s = CHR ''-'' \<or> hd s = CHR ''+'') then tl s else s)
      in if body = ''Infinity'' then Some (Infinity neg)
         else if take 4 body = ''sNaN''
           then (if list_all is_digit (drop 4 body)
                 then Some (SNaN neg (strip_zeros (drop 4 body))) else None)
         else if take 3 body = ''NaN''
           then (if list_all is_digit (drop 3 body)
                 then Some (NaN neg (strip_zeros (drop 3 body))) else None)
         else number_of_str neg body)"

section \<open>The HTTP library as the client uses it\<close>

text \<open>
  \<^verbatim>\<open>urllib3.util.Retry\<close> and \<^verbatim>\<open>requests.adapters.HTTPAdapter\<close> are records of the keyword
  arguments the client gives them. A \<^verbatim>\<open>Session\<close> has its default headers, the adapters
  mounted by URL prefix, and here also the trace of the requests sent through it and
  whether it has been closed.
\<close>

record retry =
  retry_total :: int
  retry_backoff_factor :: real
  retry_redirect :: int
  retry_allowed_methods :: "string set"
  retry_raise_on_status :: bool

record http_adapter =
  pool_connections :: int
  pool_maxsize :: int
  max_retries :: retry

record request =
  req_method :: string
  req_url :: string
  req_params :: "dict option"
  req_json :: "json option"
  req_timeout :: "real option"

record session =
  headers :: "string \<rightharpoonup> string"
  adapters :: "string \<rightharpoonup> http_adapter"
  sent :: "request list"
  closed :: bool

datatype exn = ValueError string | RequestException string

text \<open>
  What lies outside the program: the session object \<^verbatim>\<open>Session()\<close> returns, the answer
  of the remote service to a request with the body already parsed by \<^verbatim>\<open>.json()\<close> (or the
  exception raised on the way), the C library's treatment of \<^verbatim>\<open>%Y\<close>, and the \<^verbatim>\<open>capitals\<close>
  flag of the decimal context in force when \<^verbatim>\<open>str\<close> is called.
\<close>

record env =
  Session_new :: session
  remote :: "request \<Rightarrow> exn + json"
  pad_year :: bool
  capitals :: bool

definition headers_update :: "session \<Rightarrow> (string \<times> string) list \<Rightarrow> session" where
  "headers_update s hs = s\<lparr>headers := headers s ++ map_of hs\<rparr>"

definition mount :: "session \<Rightarrow> string \<Rightarrow> http_adapter \<Rightarrow> session" where
  "mount s prefix adapter = s\<lparr>adapters := (adapters s)(prefix \<mapsto> adapter)\<rparr>"

definition session_close :: "session \<Rightarrow> session" where
  "session_close s = s\<lparr>closed := True\<rparr>"

text \<open>\<^verbatim>\<open>session.get(...).json()\<close> and \<^verbatim>\<open>session.post(...).json()\<close>: one request goes out,
  and the parsed answer or the exception comes back.\<close>

definition session_get ::
  "env \<Rightarrow> session \<Rightarrow> string \<Rightarrow> dict option \<Rightarrow> real option \<Rightarrow> (exn + json) \<times> session" where
  "session_get e s u params tmo =
     (let r = \<lparr>req_method = ''GET'', req_url = u, req_params = params, req_json = None,
                req_timeout = tmo\<rparr>
      in (remote e r, s\<lparr>sent := sent s @ [r]\<rparr>))"

definition session_post ::
  "env \<Rightarrow> session \<Rightarrow> string \<Rightarrow> json \<Rightarrow> real option \<Rightarrow> (exn + json) \<times> session" where
  "session_post e s u body tmo =
     (let r = \<lparr>req_method = ''POST'', req_url = u, req_params = None, req_json = Some body,
                req_timeout = tmo\<rparr>
      in (remote e r, s\<lparr>sent := sent s @ [r]\<rparr>))"

section \<open>CircleClient\<close>

definition DEFAULT_NUM_RETRIES :: int where
  "DEFAULT_NUM_RETRIES = 3"

definition DEFAULT_BACKOFF_FACTOR :: real where
  "DEFAULT_BACKOFF_FACTOR = 1 / 2"

definition DEFAULT_TIMEOUT :: real where
  "DEFAULT_TIMEOUT = 10"

definition IDENTIFICATION_HEADERS :: "(string \<times> string) list" where
  "IDENTIFICATION_HEADERS =
     [(''User-Agent'', ''django-polaris-circle/CircleClient''),
      (''X-Client-Name'', ''django-polaris-circle'')]"

record client =
  self_api_key :: string
  self_url :: string
  self_wallet_id :: string
  self_timeout :: "real option"
  self_pool_size :: int
  self_num_retries :: int
  self_backoff_factor :: real
  self_session :: session

text \<open>\<^verbatim>\<open>__init__\<close>: the retry policy, the adapter and the headers are built in every case,
  and used only when no session is passed in.\<close>

definition init ::
  "env \<Rightarrow> string \<Rightarrow> string \<Rightarrow> string \<Rightarrow> real option \<Rightarrow> int \<Rightarrow> real \<Rightarrow> int \<Rightarrow>
   session option \<Rightarrow> client" where
  "init e api_key api_url wallet_id timeout pool_size backoff_factor num_retries session =
     (let retry = \<lparr>retry_total = num_retries, retry_backoff_factor = backoff_factor,
                    retry_redirect = 0, retry_allowed_methods = {''GET'', ''POST''},
                    retry_raise_on_status = False\<rparr>;
          adapter = \<lparr>pool_connections = pool_size, pool_maxsize = pool_size,
                      max_retries = retry\<rparr>;
          hdrs = [(''Authorization'', ''Bearer '' @ api_key),
                  (''Accept'', ''application/json''),
                  (''Content-Type'', ''application/json'')] @ IDENTIFICATION_HEADERS;
          session' = (case session of
                        None \<Rightarrow> mount (mount (headers_update (Session_new e) hdrs)
                                   ''http://'' adapter) ''https://'' adapter
                      | Some s \<Rightarrow> s)
      in \<lparr>self_api_key = api_key, self_url = api_url, self_wallet_id = wallet_id,
          self_timeout = timeout, self_pool_size = pool_size, self_num_retries = num_retries,
          self_backoff_factor = backoff_factor, self_session = session'\<rparr>)"

definition conflict_message :: string where
  "conflict_message =
     [CHR 0x27] @ ''wallet_id'' @ [CHR 0x27] @ '' cannot be specified with '' @
     [CHR 0x27] @ ''destination_wallet_id'' @ [CHR 0x27] @ '' or '' @
     [CHR 0x27] @ ''source_wallet_id'' @ [CHR 0x27]"

text \<open>
  \<^verbatim>\<open>get_transfers\<close>: the query dictionary is filled filter by filter, each only when its
  argument is true; the conflict of \<^verbatim>\<open>wallet_id\<close> with one of the two other wallet filters
  raises before the request.
\<close>

definition get_transfers ::
  "env \<Rightarrow> client \<Rightarrow> datetime option \<Rightarrow> datetime option \<Rightarrow> int option \<Rightarrow> string option \<Rightarrow>
   string option \<Rightarrow> string option \<Rightarrow> (exn + json) \<times> client" where
  "get_transfers e self from_datetime to_datetime page_size wallet_id destination_wallet_id
     source_wallet_id =
     (let request_args = [];
          request_args = (case from_datetime of
                            Some d \<Rightarrow> dict_set request_args ''from''
                                       (JStr (strftime (pad_year e) d CIRCLE_DATETIME_FORMAT))
                          | None \<Rightarrow> request_args);
          request_args = (case to_datetime of
                            Some d \<Rightarrow> dict_set request_args ''to''
                                       (JStr (strftime (pad_year e) d CIRCLE_DATETIME_FORMAT))
                          | None \<Rightarrow> request_args)
      in case (if truthy_str wallet_id
               then (if truthy_str destination_wallet_id \<or> truthy_str source_wallet_id
                     then Inl (ValueError conflict_message)
                     else Inr (dict_set request_args ''walletId'' (JStr (the wallet_id))))
               else Inr request_args) of
           Inl ex \<Rightarrow> (Inl ex, self)
         | Inr request_args \<Rightarrow>
           (let request_args = (if truthy_str destination_wallet_id
                                then dict_set request_args ''destinationWalletId''
                                       (JStr (the destination_wallet_id))
                                else request_args);
                request_args = (if truthy_str source_wallet_id
                                then dict_set request_args ''sourceWalletId''
                                       (JStr (the source_wallet_id))
                                else request_args);
                request_args = (if truthy_int page_size
                                then dict_set request_args ''pageSize'' (JInt (the page_size))
                                else request_args);
                (res, s') = session_get e (self_session self) (self_url self @ ''/transfers'')
                              (Some request_args) (self_timeout self)
            in (res, self\<lparr>self_session := s'\<rparr>)))"

definition get_transfer :: "env \<Rightarrow> client \<Rightarrow> string \<Rightarrow> (exn + json) \<times> client" where
  "get_transfer e self transfer_id =
     (let (res, s') = session_get e (self_session self)
                        (self_url self @ ''/transfers/'' @ transfer_id) None (self_timeout self)
      in (res, self\<lparr>self_session := s'\<rparr>))"

text \<open>\<^verbatim>\<open>memo or ""\<close>: the memo when it is a non-empty string, the empty string otherwise.\<close>

definition or_empty :: "string option \<Rightarrow> string" where
  "or_empty memo = (if truthy_str memo then the memo else '''')"

definition create_transfer ::
  "env \<Rightarrow> client \<Rightarrow> string \<Rightarrow> string \<Rightarrow> amount \<Rightarrow> string option \<Rightarrow> (exn + json) \<times> client" where
  "create_transfer e self idempotency_key account amount memo =
     (let (res, s') = session_post e (self_session self) (self_url self @ ''/transfers'')
            (JObj [(''idempotencyKey'', JStr idempotency_key),
                   (''source'', JObj [(''type'', JStr ''wallet''),
                                      (''id'', JStr (self_wallet_id self))]),
                   (''destination'', JObj [(''type'', JStr ''blockchain''),
                                           (''address'', JStr account),
                                           (''chain'', JStr ''XLM''),
                                           (''addressTag'', JStr (or_empty memo))]),
                   (''amount'', JObj [(''amount'', JStr (py_str (capitals e) amount)),
                                      (''currency'', JStr ''USD'')])])
            (self_timeout self)
      in (res, self\<lparr>self_session := s'\<rparr>))"

text \<open>\<^verbatim>\<open>get_wallet\<close> and \<^verbatim>\<open>create_address\<close> fill a dictionary \<^verbatim>\<open>optional_kwargs\<close> when the
  timeout is true, and then do not use it.\<close>

definition get_wallet :: "env \<Rightarrow> client \<Rightarrow> (exn + json) \<times> client" where
  "get_wallet e self =
     (let optional_kwargs = (if truthy_float (self_timeout self)
                             then [(''timeout'', self_timeout self)] else []);
          (res, s') = session_get e (self_session self)
                        (self_url self @ ''/wallets/'' @ self_wallet_id self) None
                        (self_timeout self)
      in (res, self\<lparr>self_session := s'\<rparr>))"

definition create_address :: "env \<Rightarrow> client \<Rightarrow> string \<Rightarrow> (exn + json) \<times> client" where
  "create_address e self idempotency_key =
     (let optional_kwargs = (if truthy_float (self_timeout self)
                             then [(''timeout'', self_timeout self)] else []);
          (res, s') = session_post e (self_session self)
                        (self_url self @ ''/wallets/'' @ self_wallet_id self @ ''/addresses'')
                        (JObj [(''idempotencyKey'', JStr idempotency_key),
                               (''currency'', JStr ''USD''),
                               (''chain'', JStr ''XLM'')])
                        (self_timeout self)
      in (res, self\<lparr>self_session := s'\<rparr>))"

definition close :: "client \<Rightarrow> client" where
  "close self = self\<lparr>self_session := session_close (self_session self)\<rparr>"

definition enter :: "client \<Rightarrow> client" where
  "enter self = self"

text \<open>\<^verbatim>\<open>__exit__(self, *args)\<close> ignores the exception triple it is given and returns
  \<^verbatim>\<open>None\<close>, so the exception of the body, if any, goes on to the caller.\<close>

definition exit_client :: "client \<Rightarrow> exn option \<Rightarrow> bool \<times> client" where
  "exit_client self args = (False, close self)"

text \<open>
  The statement \<^verbatim>\<open>with client as c: body\<close>: \<^verbatim>\<open>__enter__\<close>, the body on what it returns, then
  \<^verbatim>\<open>__exit__\<close> on the client, with the exception when the body raised one; the exception
  is raised again unless \<^verbatim>\<open>__exit__\<close> returned a true value.
\<close>

definition with_client ::
  "client \<Rightarrow> (client \<Rightarrow> (exn + 'a) \<times> client) \<Rightarrow> (exn + 'a option) \<times> client" where
  "with_client self body =
     (let c = enter self;
          (res, c') = body c
      in case res of
           Inr v \<Rightarrow> (let (suppress, c'') = exit_client c' None in (Inr (Some v), c''))
         | Inl ex \<Rightarrow> (let (suppress, c'') = exit_client c' (Some ex)
                      in (if suppress then Inr None else Inl ex, c'')))"

text \<open>The requests a call has sent: those in the trace after it and not before.\<close>

definition issued :: "client \<Rightarrow> client \<Rightarrow> request list" where
  "issued before after = drop (length (sent (self_session before))) (sent (self_session after))"

text \<open>A query parameter of a request, by its name.\<close>

definition param :: "request \<Rightarrow> string \<Rightarrow> json option" where
  "param r k = (case req_params r of None \<Rightarrow> None | Some d \<Rightarrow> dict_get d k)"

section \<open>The wire format of timestamps\<close>

text \<open>
  \<^verbatim>\<open>YYYY-MM-DDTHH:MM:SS.ffffffZ\<close>: 27 characters, digits in the seven fields, the
  separators between them and the final \<^verbatim>\<open>Z\<close>. \<open>parse_circle\<close> reads the seven fields
  back as numbers.
\<close>

definition is_circle_format :: "string \<Rightarrow> bool" where
  "is_circle_format s =
     (length s = 27 \<and>
      list_all is_digit (take 4 s) \<and> s ! 4 = CHR ''-'' \<and>
      list_all is_digit (take 2 (drop 5 s)) \<and> s ! 7 = CHR ''-'' \<and>
      list_all is_digit (take 2 (drop 8 s)) \<and> s ! 10 = CHR ''T'' \<and>
      list_all is_digit (take 2 (drop 11 s)) \<and> s ! 13 = CHR '':'' \<and>
      list_all is_digit (take 2 (drop 14 s)) \<and> s ! 16 = CHR '':'' \<and>
      list_all is_digit (take 2 (drop 17 s)) \<and> s ! 19 = CHR ''.'' \<and>
      list_all is_digit (take 6 (drop 20 s)) \<and> s ! 26 = CHR ''Z'')"

definition parse_circle :: "string \<Rightarrow> nat \<times> nat \<times> nat \<times> nat \<times> nat \<times> nat \<times> nat" where
  "parse_circle s =
     (nat_of_digits (take 4 s), nat_of_digits (take 2 (drop 5 s)),
      nat_of_digits (take 2 (drop 8 s)), nat_of_digits (take 2 (drop 11 s)),
      nat_of_digits (take 2 (drop 14 s)), nat_of_digits (take 2 (drop 17 s)),
      nat_of_digits (take 6 (drop 20 s)))"

definition fields :: "datetime \<Rightarrow> nat \<times> nat \<times> nat \<times> nat \<times> nat \<times> nat \<times> nat" where
  "fields dt = (year dt, month dt, day dt, hour dt, minute dt, second dt, microsecond dt)"

section \<open>What a call sends\<close>

text \<open>
  The query dictionary \<^verbatim>\<open>get_transfers\<close> builds when it sends, entry by entry in the order
  of the assignments, the request made of it, and the client after a request has gone
  out through its session.
\<close>

definition transfers_query ::
  "bool \<Rightarrow> datetime option \<Rightarrow> datetime option \<Rightarrow> int option \<Rightarrow> string option \<Rightarrow>
   string option \<Rightarrow> string option \<Rightarrow> dict" where
  "transfers_query p from_datetime to_datetime page_size wallet_id destination_wallet_id
     source_wallet_id =
     (case from_datetime of None \<Rightarrow> []
      | Some d \<Rightarrow> [(''from'', JStr (strftime p d CIRCLE_DATETIME_FORMAT))]) @
     (case to_datetime of None \<Rightarrow> []
      | Some d \<Rightarrow> [(''to'', JStr (strftime p d CIRCLE_DATETIME_FORMAT))]) @
     (if truthy_str wallet_id then [(''walletId'', JStr (the wallet_id))] else []) @
     (if truthy_str destination_wallet_id
      then [(''destinationWalletId'', JStr (the destination_wallet_id))] else []) @
     (if truthy_str source_wallet_id
      then [(''sourceWalletId'', JStr (the source_wallet_id))] else []) @
     (if truthy_int page_size then [(''pageSize'', JInt (the page_size))] else [])"

definition transfers_request ::
  "env \<Rightarrow> client \<Rightarrow> datetime option \<Rightarrow> datetime option \<Rightarrow> int option \<Rightarrow> string option \<Rightarrow>
   string option \<Rightarrow> string option \<Rightarrow> request" where
  "transfers_request e self f t p w d s =
     \<lparr>req_method = ''GET'', req_url = self_url self @ ''/transfers'',
      req_params = Some (transfers_query (pad_year e) f t p w d s), req_json = None,
      req_timeout = self_timeout self\<rparr>"

definition after_request :: "client \<Rightarrow> request \<Rightarrow> client" where
  "after_request self r =
     self\<lparr>self_session := (self_session self)\<lparr>sent := sent (self_session self) @ [r]\<rparr>\<rparr>"

text \<open>The seven fields of a timestamp put together with the separators of the format.\<close>

definition assemble ::
  "string \<Rightarrow> string \<Rightarrow> string \<Rightarrow> string \<Rightarrow> string \<Rightarrow> string \<Rightarrow> string \<Rightarrow> string" where
  "assemble Y M D H Mi S F =
     Y @ ''-'' @ M @ ''-'' @ D @ ''T'' @ H @ '':'' @ Mi @ '':'' @ S @ ''.'' @ F @ ''Z''"

section \<open>Example values\<close>

definition example_env :: env where
  "example_env =
     \<lparr>Session_new = \<lparr>headers = Map.empty, adapters = Map.empty, sent = [], closed = False\<rparr>,
      remote = (\<lambda>r. Inr JNull), pad_year = False, capitals = True\<rparr>"

definition example_client :: client where
  "example_client =
     init example_env ''key'' ''https://api.circle.test/v1'' ''1000216185'' (Some DEFAULT_TIMEOUT)
       10 DEFAULT_BACKOFF_FACTOR DEFAULT_NUM_RETRIES None"

definition example_datetime :: datetime where
  "example_datetime =
     \<lparr>year = 2023, month = 1, day = 15, hour = 8, minute = 30, second = 0, microsecond = 0,
      tzinfo = None\<rparr>"

section \<open>Digit strings\<close>

lemma digit_cases: "m < 10 \<Longrightarrow> m = 0 \<or> m = 1 \<or> m = 2 \<or> m = 3 \<or> m = 4 \<or> m = 5 \<or> m = 6 \<or> m = 7 \<or> m = 8 \<or> m = (9::nat)"
  by arith

lemma digit_char_is_digit: "is_digit (digit_char n)"
proof -
  have "n mod 10 < 10" by simp
  from digit_cases [OF this] show ?thesis
    by (auto simp: digit_char_def is_digit_def)
qed

lemma digit_val_digit_char: "digit_val (digit_char n) = n mod 10"
proof -
  have "n mod 10 < 10" by simp
  from digit_cases [OF this] show ?thesis
    by (auto simp: digit_char_def digit_val_def)
qed

lemma str_nat_digits: "list_all is_digit (str_nat n)"
proof (induction n rule: str_nat.induct)
  case (1 n)
  then show ?case
    by (subst str_nat.simps) (simp add: digit_char_is_digit)
qed

lemma str_nat_length: "n < 10 ^ k \<Longrightarrow> 0 < k \<Longrightarrow> length (str_nat n) \<le> k"
proof (induction n arbitrary: k rule: str_nat.induct)
  case (1 n)
  show ?case
  proof (cases "n < 10")
    case True
    with 1(3) show ?thesis by (subst str_nat.simps) simp
  next
    case False
    obtain j where k: "k = Suc j" using 1(3) by (cases k) auto
    have "0 < j" using False 1(2) k by (cases j) auto
    moreover have "n div 10 < 10 ^ j" using 1(2) k by (simp add: less_mult_imp_div_less mult.commute)
    ultimately have "length (str_nat (n div 10)) \<le> j" using 1(1) [OF False] by blast
    with False k show ?thesis by (subst str_nat.simps) simp
  qed
qed

lemma str_nat_nonempty: "str_nat n \<noteq> []"
  by (subst str_nat.simps) simp

lemma str_nat_length_ge: "10 ^ k \<le> n \<Longrightarrow> k < length (str_nat n)"
proof (induction n arbitrary: k rule: str_nat.induct)
  case (1 n)
  show ?case
  proof (cases k)
    case 0
    then show ?thesis by (simp add: str_nat_nonempty)
  next
    case (Suc j)
    with 1(2) have ge: "\<not> n < 10"
      by (metis One_nat_def le_trans not_less one_le_numeral one_le_power power_Suc mult.right_neutral mult_le_mono2)
    have "10 ^ j \<le> n div 10" using 1(2) Suc by (simp add: less_eq_div_iff_mult_less_eq mult.commute)
    then have "j < length (str_nat (n div 10))" using 1(1) [OF ge] by blast
    with ge Suc show ?thesis by (subst str_nat.simps) simp
  qed
qed

lemma nat_of_digits_snoc: "nat_of_digits (xs @ [c]) = 10 * nat_of_digits xs + digit_val c"
  by (simp add: nat_of_digits_def)

lemma nat_of_digits_str_nat: "nat_of_digits (str_nat n) = n"
proof (induction n rule: str_nat.induct)
  case (1 n)
  show ?case
  proof (cases "n < 10")
    case True
    then show ?thesis
      by (subst str_nat.simps) (simp add: nat_of_digits_def digit_val_digit_char)
  next
    case False
    with 1 show ?thesis
      by (subst str_nat.simps) (simp add: nat_of_digits_snoc digit_val_digit_char)
  qed
qed

lemma nat_of_digits_zeros: "foldl (\<lambda>acc c. 10 * acc + digit_val c) 0 (replicate k (CHR ''0'')) = 0"
  by (induction k) (simp_all add: digit_val_def)

lemma nat_of_digits_zfill: "nat_of_digits (zfill w s) = nat_of_digits s"
  by (simp add: zfill_def nat_of_digits_def nat_of_digits_zeros)

lemma length_zfill: "length s \<le> w \<Longrightarrow> length (zfill w s) = w"
  by (simp add: zfill_def)

lemma is_digit_zero: "is_digit (CHR ''0'')"
  by (simp add: is_digit_def)

lemma zfill_digits: "list_all is_digit s \<Longrightarrow> list_all is_digit (zfill w s)"
  by (simp add: zfill_def list_all_iff is_digit_zero ball_Un)

lemma strftime_circle:
  "strftime p dt CIRCLE_DATETIME_FORMAT =
     assemble (if p then zfill 4 (str_nat (year dt)) else str_nat (year dt))
       (zfill 2 (str_nat (month dt))) (zfill 2 (str_nat (day dt)))
       (zfill 2 (str_nat (hour dt))) (zfill 2 (str_nat (minute dt)))
       (zfill 2 (str_nat (second dt))) (zfill 6 (str_nat (microsecond dt)))"
  by (simp add: CIRCLE_DATETIME_FORMAT_def directive_def assemble_def)

lemma assemble_format:
  assumes "length Y = 4" "length M = 2" "length D = 2" "length H = 2" "length Mi = 2"
    "length S = 2" "length F = 6"
    and "list_all is_digit Y" "list_all is_digit M" "list_all is_digit D" "list_all is_digit H"
    "list_all is_digit Mi" "list_all is_digit S" "list_all is_digit F"
  shows "is_circle_format (assemble Y M D H Mi S F)"
    and "parse_circle (assemble Y M D H Mi S F) =
           (nat_of_digits Y, nat_of_digits M, nat_of_digits D, nat_of_digits H,
            nat_of_digits Mi, nat_of_digits S, nat_of_digits F)"
  using assms by (simp_all add: is_circle_format_def parse_circle_def assemble_def nth_append)

section \<open>Requests and traces\<close>

lemma issued_after_request: "issued self (after_request self r) = [r]"
  by (simp add: issued_def after_request_def)

lemma issued_same: "issued self self = []"
  by (simp add: issued_def)

lemma dict_set_simps:
  "dict_set [] k v = [(k, v)]"
  "dict_set ((k', v') # d) k v = (if k' = k then (k, v) # d else (k', v') # dict_set d k v)"
  by (simp_all add: dict_set_def)

lemma get_transfers_conflict:
  "truthy_str w \<Longrightarrow> truthy_str d \<or> truthy_str s \<Longrightarrow>
   get_transfers e self f t p w d s = (Inl (ValueError conflict_message), self)"
  by (simp add: get_transfers_def Let_def)

lemma get_transfers_query:
  assumes "\<not> (truthy_str w \<and> (truthy_str d \<or> truthy_str s))"
  shows "get_transfers e self f t p w d s =
         (remote e (transfers_request e self f t p w d s),
          after_request self (transfers_request e self f t p w d s))"
proof (cases "truthy_str w")
  case True
  with assms have "\<not> truthy_str d" "\<not> truthy_str s" by auto
  with True show ?thesis
    by (cases f; cases t)
       (simp_all add: get_transfers_def session_get_def transfers_request_def
          transfers_query_def after_request_def dict_set_simps Let_def)
next
  case False
  then show ?thesis
    by (cases f; cases t)
       (simp_all add: get_transfers_def session_get_def transfers_request_def
          transfers_query_def after_request_def dict_set_simps Let_def)
qed

lemma create_transfer_sends:
  "create_transfer e self k account amount memo =
     (let r = \<lparr>req_method = ''POST'', req_url = self_url self @ ''/transfers'',
                req_params = None,
                req_json = Some (JObj
                  [(''idempotencyKey'', JStr k),
                   (''source'', JObj [(''type'', JStr ''wallet''), (''id'', JStr (self_wallet_id self))]),
                   (''destination'', JObj [(''type'', JStr ''blockchain''), (''address'', JStr account),
                       (''chain'', JStr ''XLM''), (''addressTag'', JStr (or_empty memo))]),
                   (''amount'', JObj [(''amount'', JStr (py_str (capitals e) amount)), (''currency'', JStr ''USD'')])]),
                req_timeout = self_timeout self\<rparr>
      in (remote e r, after_request self r))"
  by (simp add: create_transfer_def session_post_def after_request_def Let_def)

lemma get_transfer_sends:
  "get_transfer e self tid =
     (let r = \<lparr>req_method = ''GET'', req_url = self_url self @ ''/transfers/'' @ tid,
                req_params = None, req_json = None, req_timeout = self_timeout self\<rparr>
      in (remote e r, after_request self r))"
  by (simp add: get_transfer_def session_get_def after_request_def Let_def)

lemma get_wallet_sends:
  "get_wallet e self =
     (let r = \<lparr>req_method = ''GET'', req_url = self_url self @ ''/wallets/'' @ self_wallet_id self,
                req_params = None, req_json = None, req_timeout = self_timeout self\<rparr>
      in (remote e r, after_request self r))"
  by (simp add: get_wallet_def session_get_def after_request_def Let_def)

lemma create_address_sends:
  "create_address e self k =
     (let r = \<lparr>req_method = ''POST'',
                req_url = self_url self @ ''/wallets/'' @ self_wallet_id self @ ''/addresses'',
                req_params = None,
                req_json = Some (JObj [(''idempotencyKey'', JStr k), (''currency'', JStr ''USD''),
                                       (''chain'', JStr ''XLM'')]),
                req_timeout = self_timeout self\<rparr>
      in (remote e r, after_request self r))"
  by (simp add: create_address_def session_post_def after_request_def Let_def)

lemma or_empty_cases: "or_empty memo = (case memo of None \<Rightarrow> [] | Some m \<Rightarrow> m)"
  by (cases memo) (simp_all add: or_empty_def)

section \<open>Reading a decimal back from its string\<close>

lemma is_digit_not_special:
  "is_digit c \<Longrightarrow> c \<noteq> CHR ''-'' \<and> c \<noteq> CHR ''+'' \<and> c \<noteq> CHR ''.'' \<and> c \<noteq> CHR ''E'' \<and>
     c \<noteq> CHR ''e'' \<and> c \<noteq> CHR ''I'' \<and> c \<noteq> CHR ''N'' \<and> c \<noteq> CHR ''s''"
  by (auto simp: is_digit_def)

lemma not_digit_special:
  "\<not> is_digit (CHR ''-'')" "\<not> is_digit (CHR ''+'')" "\<not> is_digit (CHR ''.'')"
  "\<not> is_digit (CHR ''E'')" "\<not> is_digit (CHR ''e'')"
  by (simp_all add: is_digit_def)

lemma takeWhile_digits_cons:
  "list_all is_digit xs \<Longrightarrow> \<not> is_digit c \<Longrightarrow> takeWhile is_digit (xs @ c # ys) = xs"
  by (simp add: list_all_iff takeWhile_tail)

lemma dropWhile_digits_cons:
  "list_all is_digit xs \<Longrightarrow> \<not> is_digit c \<Longrightarrow> dropWhile is_digit (xs @ c # ys) = c # ys"
  by (simp add: list_all_iff dropWhile_append2)

lemma takeWhile_digits_all: "list_all is_digit xs \<Longrightarrow> takeWhile is_digit xs = xs"
  by (simp add: list_all_iff)

lemma dropWhile_digits_all: "list_all is_digit xs \<Longrightarrow> dropWhile is_digit xs = []"
  by (simp add: list_all_iff)

lemma strip_zeros_replicate:
  "ds = [] \<or> hd ds \<noteq> CHR ''0'' \<Longrightarrow> strip_zeros (replicate k (CHR ''0'') @ ds) = ds"
proof (induction k)
  case 0
  then show ?case by (cases ds) (auto simp: strip_zeros_def)
next
  case (Suc k)
  then show ?case by (simp add: strip_zeros_def)
qed

lemma str_int_of_zeros:
  assumes "digits = ''0'' \<or> digits \<noteq> [] \<and> wf_digits digits"
  shows "str_int_of (replicate k (CHR ''0'') @ digits) = digits"
proof (cases "digits = ''0''")
  case True
  have "replicate k (CHR ''0'') @ ''0'' = replicate (Suc k) (CHR ''0'') @ []"
    by (simp add: replicate_append_same)
  moreover have "strip_zeros (replicate (Suc k) (CHR ''0'') @ []) = []"
    by (rule strip_zeros_replicate) simp
  ultimately have "strip_zeros (replicate k (CHR ''0'') @ ''0'') = []"
    by simp
  with True show ?thesis by (simp add: str_int_of_def)
next
  case False
  with assms have d: "digits \<noteq> []" "hd digits \<noteq> CHR ''0''" by (auto simp: wf_digits_def)
  then have "strip_zeros (replicate k (CHR ''0'') @ digits) = digits"
    by (simp add: strip_zeros_replicate)
  with d show ?thesis by (simp add: str_int_of_def)
qed

lemma parse_exp_fmt: "parse_exp (fmt_plus_d x) = Some x"
  by (simp add: parse_exp_def fmt_plus_d_def str_nat_nonempty str_nat_digits nat_of_digits_str_nat)


lemma number_of_str_parts:
  assumes ip: "list_all is_digit ip" "ip \<noteq> []"
    and fp: "list_all is_digit fp"
    and F: "F = [] \<and> fp = [] \<or> F = CHR ''.'' # fp"
    and X: "X = [] \<and> x = 0 \<or> X = CHR ''E'' # fmt_plus_d x \<or> X = CHR ''e'' # fmt_plus_d x"
  shows "number_of_str neg (ip @ F @ X) =
           Some (Finite neg (str_int_of (ip @ fp)) (x - int (length fp)))"
proof -
  note rules = takeWhile_digits_cons dropWhile_digits_cons takeWhile_digits_all
    dropWhile_digits_all not_digit_special parse_exp_fmt number_of_str_def Let_def
  from F X ip fp show ?thesis
    by (elim disjE conjE) (simp_all add: rules)
qed

lemma Decimal_of_str_number:
  assumes "is_digit c"
  shows "Decimal_of_str (sign_str neg @ c # rest) = number_of_str neg (c # rest)"
proof -
  note n = is_digit_not_special [OF assms]
  show ?thesis
    using n by (cases neg) (simp_all add: Decimal_of_str_def sign_str_def Let_def)
qed


lemma readback_parts:
  assumes ip: "list_all is_digit ip" "ip \<noteq> []"
    and fp: "list_all is_digit fp"
    and F: "F = [] \<and> fp = [] \<or> F = CHR ''.'' # fp"
    and X: "X = [] \<and> x = 0 \<or> X = CHR ''E'' # fmt_plus_d x \<or> X = CHR ''e'' # fmt_plus_d x"
    and coeff: "ip @ fp = replicate k (CHR ''0'') @ digits"
    and wf: "digits = ''0'' \<or> digits \<noteq> [] \<and> wf_digits digits"
    and ex: "x - int (length fp) = e"
  shows "Decimal_of_str (sign_str neg @ ip @ F @ X) = Some (Finite neg digits e)"
proof -
  from ip obtain c r where c: "ip = c # r" "is_digit c"
    by (cases ip) auto
  have "Decimal_of_str (sign_str neg @ ip @ F @ X) = number_of_str neg (ip @ F @ X)"
    unfolding c(1) using Decimal_of_str_number [OF c(2)] by simp
  also have "\<dots> = Some (Finite neg (str_int_of (ip @ fp)) (x - int (length fp)))"
    using ip fp F X by (rule number_of_str_parts)
  also have "str_int_of (ip @ fp) = digits"
    unfolding coeff using wf by (rule str_int_of_zeros)
  finally show ?thesis using ex by simp
qed

lemma readback_finite:
  assumes wf: "digits = ''0'' \<or> digits \<noteq> [] \<and> wf_digits digits"
  shows "Decimal_of_str (decimal_str c (Finite neg digits e)) = Some (Finite neg digits e)"
proof -
  define n where "n = int (length digits)"
  define ld where "ld = e + n"
  define ec where "ec = (if c then CHR ''E'' else CHR ''e'')"
  have dig: "list_all is_digit digits" and ne: "digits \<noteq> []"
    using wf by (auto simp: wf_digits_def is_digit_zero)
  have npos: "1 \<le> n"
    using ne by (cases digits) (simp_all add: n_def)
  have ecs: "[ec] @ fmt_plus_d y = CHR ''E'' # fmt_plus_d y \<or> [ec] @ fmt_plus_d y = CHR ''e'' # fmt_plus_d y" for y
    by (simp add: ec_def)
  consider (small) "e \<le> 0" "- 6 < ld" "ld \<le> 0"
    | (whole) "e = 0"
    | (point) "e < 0" "0 < ld"
    | (sci1) "\<not> (e \<le> 0 \<and> - 6 < ld)" "n = 1"
    | (sci) "\<not> (e \<le> 0 \<and> - 6 < ld)" "1 < n"
    using npos unfolding ld_def by atomize_elim linarith
  then show ?thesis
  proof cases
    case small
    have "decimal_str c (Finite neg digits e) =
            sign_str neg @ ''0'' @ (CHR ''.'' # replicate (nat (- ld)) (CHR ''0'') @ digits) @ []"
      using small by (simp add: Let_def ld_def n_def)
    moreover have "Decimal_of_str (sign_str neg @ ''0'' @
        (CHR ''.'' # replicate (nat (- ld)) (CHR ''0'') @ digits) @ []) = Some (Finite neg digits e)"
    proof (rule readback_parts [where x = 0 and k = "Suc (nat (- ld))"])
      show "list_all is_digit (replicate (nat (- ld)) (CHR ''0'') @ digits)"
        using dig by (simp add: list_all_iff is_digit_zero ball_Un)
      show "0 - int (length (replicate (nat (- ld)) (CHR ''0'') @ digits)) = e"
        using small by (simp add: ld_def n_def)
    qed (use wf in \<open>simp_all add: is_digit_zero\<close>)
    ultimately show ?thesis by simp
  next
    case whole
    have "decimal_str c (Finite neg digits e) = sign_str neg @ digits @ [] @ []"
      using whole ne by (cases digits) (simp_all add: Let_def)
    moreover have "Decimal_of_str (sign_str neg @ digits @ [] @ []) = Some (Finite neg digits e)"
      by (rule readback_parts [where x = 0 and k = 0 and fp = "[]"])
         (use wf dig ne whole in simp_all)
    ultimately show ?thesis by simp
  next
    case point
    then have lt: "ld < n" by (simp add: ld_def)
    have "decimal_str c (Finite neg digits e) =
            sign_str neg @ take (nat ld) digits @ (CHR ''.'' # drop (nat ld) digits) @ []"
      using point lt by (simp add: Let_def ld_def n_def)
    moreover have "Decimal_of_str (sign_str neg @ take (nat ld) digits @
        (CHR ''.'' # drop (nat ld) digits) @ []) = Some (Finite neg digits e)"
    proof (rule readback_parts [where x = 0 and k = 0])
      show "list_all is_digit (take (nat ld) digits)" "list_all is_digit (drop (nat ld) digits)"
        using dig by (auto simp: list_all_iff dest: in_set_takeD in_set_dropD)
      show "take (nat ld) digits \<noteq> []"
        using point ne by simp
      show "0 - int (length (drop (nat ld) digits)) = e"
        using point lt by (simp add: ld_def n_def)
    qed (use wf in simp_all)
    ultimately show ?thesis by simp
  next
    case sci1
    then have len: "length digits = 1" by (simp add: n_def)
    have e0: "e \<noteq> 0" using sci1 by (auto simp: ld_def)
    have "decimal_str c (Finite neg digits e) = sign_str neg @ digits @ [] @ ([ec] @ fmt_plus_d e)"
      using sci1 e0 len by (auto simp: Let_def ld_def n_def ec_def)
    moreover have "Decimal_of_str (sign_str neg @ digits @ [] @ ([ec] @ fmt_plus_d e)) =
        Some (Finite neg digits e)"
      by (rule readback_parts [where x = e and k = 0 and fp = "[]"])
         (use wf dig ne ecs in simp_all)
    ultimately show ?thesis by simp
  next
    case sci
    then have len: "1 < length digits" by (simp add: n_def)
    have ld1: "ld \<noteq> 1" using sci by (auto simp: ld_def)
    have "decimal_str c (Finite neg digits e) =
            sign_str neg @ take 1 digits @ (CHR ''.'' # drop 1 digits) @ ([ec] @ fmt_plus_d (ld - 1))"
      using sci ld1 len by (auto simp: Let_def ld_def n_def ec_def)
    moreover have "Decimal_of_str (sign_str neg @ take 1 digits @ (CHR ''.'' # drop 1 digits) @
        ([ec] @ fmt_plus_d (ld - 1))) = Some (Finite neg digits e)"
    proof (rule readback_parts [where x = "ld - 1" and k = 0])
      show "list_all is_digit (take 1 digits)" "list_all is_digit (drop 1 digits)"
        using dig by (auto simp: list_all_iff dest: in_set_takeD in_set_dropD)
      show "take 1 digits \<noteq> []"
        using ne by simp
      show "ld - 1 - int (length (drop 1 digits)) = e"
        using len by (simp add: ld_def n_def)
    qed (use wf ecs in simp_all)
    ultimately show ?thesis by simp
  qed
qed


lemma strip_zeros_wf: "wf_digits p \<Longrightarrow> strip_zeros p = p"
  using strip_zeros_replicate [of p 0] by (simp add: wf_digits_def)

lemma readback:
  assumes "well_formed d"
  shows "Decimal_of_str (decimal_str c d) = Some d"
proof (cases d)
  case (Finite neg digits e)
  with assms show ?thesis by (simp only: well_formed.simps readback_finite)
next
  case (Infinity neg)
  then show ?thesis
    by (cases neg) (simp_all add: Decimal_of_str_def sign_str_def)
next
  case (NaN neg p)
  with assms have "wf_digits p" by simp
  then have "list_all is_digit p" "strip_zeros p = p"
    by (simp_all add: wf_digits_def strip_zeros_wf)
  with NaN show ?thesis
    by (cases neg) (simp_all add: Decimal_of_str_def sign_str_def)
next
  case (SNaN neg p)
  with assms have "wf_digits p" by simp
  then have "list_all is_digit p" "strip_zeros p = p"
    by (simp_all add: wf_digits_def strip_zeros_wf)
  with SNaN show ?thesis
    by (cases neg) (simp_all add: Decimal_of_str_def sign_str_def)
qed

section \<open>Parameter conflict in get_transfers\<close>

text \<open>
  Claim C1, as amended. When \<^verbatim>\<open>wallet_id\<close> is a non-empty string and
  \<^verbatim>\<open>destination_wallet_id\<close> or \<^verbatim>\<open>source_wallet_id\<close> is a non-empty string, \<^verbatim>\<open>get_transfers\<close>
  raises \<^verbatim>\<open>ValueError\<close> with the conflict message, sends no request and leaves the client as
  it was.
\<close>

theorem get_transfers_conflict_raises:
  assumes "truthy_str wallet_id"
    and "truthy_str destination_wallet_id \<or> truthy_str source_wallet_id"
  shows "get_transfers e self from_datetime to_datetime page_size wallet_id
           destination_wallet_id source_wallet_id = (Inl (ValueError conflict_message), self) \<and>
         issued self (snd (get_transfers e self from_datetime to_datetime page_size wallet_id
           destination_wallet_id source_wallet_id)) = []"
  using assms by (simp add: get_transfers_conflict issued_same)

text \<open>The theorem at a wallet filter given together with a destination wallet filter.\<close>

theorem get_transfers_conflict_raises_witness:
  "get_transfers example_env example_client None None None (Some ''1000216185'')
     (Some ''1000216186'') None = (Inl (ValueError conflict_message), example_client) \<and>
   issued example_client (snd (get_transfers example_env example_client None None None
     (Some ''1000216185'') (Some ''1000216186'') None)) = []"
  using get_transfers_conflict_raises [of "Some ''1000216185''" "Some ''1000216186''" None
      example_env example_client None None None]
  by (simp add: issued_def)

text \<open>
  Claim C1 as it is written speaks of every call where the filters are supplied. With
  \<^verbatim>\<open>wallet_id=""\<close> supplied together with a destination wallet filter the call does not
  raise: the request goes out, with the destination filter alone.
\<close>

theorem supplied_empty_wallet_no_conflict:
  "fst (get_transfers example_env example_client None None None (Some '''')
          (Some ''1000216186'') None) = Inr JNull \<and>
   map req_params (issued example_client (snd (get_transfers example_env example_client None None
          None (Some '''') (Some ''1000216186'') None))) =
     [Some [(''destinationWalletId'', JStr ''1000216186'')]]"
  by (simp add: get_transfers_query issued_after_request transfers_request_def
        transfers_query_def example_env_def)

section \<open>Request bodies\<close>

text \<open>
  Claim C2. The amount field of the body \<^verbatim>\<open>create_transfer\<close> posts is \<^verbatim>\<open>str(amount)\<close>. For a
  string that is the string itself. For a \<^verbatim>\<open>Decimal\<close> it is the decimal's own string, built
  from the digits of its coefficient with no number in between, and it is exact: read
  back, the string gives the same sign, coefficient and exponent, so two different
  decimals (also two that are equal as numbers, as 12.5 and 12.50) never give the same
  string. \<^verbatim>\<open>Decimal("12.50")\<close> gives \<^verbatim>\<open>"12.50"\<close>.
\<close>

theorem create_transfer_amount_exact:
  "map (\<lambda>r. Option.bind (Option.bind (req_json r) (\<lambda>b. member b ''amount''))
              (\<lambda>a. member a ''amount''))
     (issued self (snd (create_transfer e self idempotency_key account amount memo))) =
     [Some (JStr (py_str (capitals e) amount))] \<and>
   py_str c (AmountStr s) = s \<and>
   py_str c (AmountDecimal d) = decimal_str c d \<and>
   (well_formed d \<longrightarrow> Decimal_of_str (py_str c (AmountDecimal d)) = Some d) \<and>
   (well_formed d \<and> well_formed d' \<and>
    py_str c (AmountDecimal d) = py_str c (AmountDecimal d') \<longrightarrow> d = d') \<and>
   py_str c (AmountDecimal (Finite False ''1250'' (- 2))) = ''12.50''"
proof -
  have inj: "d = d'"
    if "well_formed d" "well_formed d'" "decimal_str c d = decimal_str c d'"
  proof -
    have "Some d = Decimal_of_str (decimal_str c d)" using that(1) by (simp add: readback)
    also have "\<dots> = Some d'" using that(2,3) by (simp add: readback)
    finally show ?thesis by simp
  qed
  have "py_str c (AmountDecimal (Finite False ''1250'' (- 2))) = ''12.50''"
    by (simp add: sign_str_def)
  then show ?thesis
    using inj by (simp add: create_transfer_sends Let_def issued_after_request readback)
qed

text \<open>The theorem at \<^verbatim>\<open>Decimal("12.50")\<close>, and at \<^verbatim>\<open>Decimal("12.5")\<close> beside it.\<close>

theorem create_transfer_amount_exact_witness:
  "well_formed (Finite False ''1250'' (- 2)) \<and>
   map (\<lambda>r. Option.bind (Option.bind (req_json r) (\<lambda>b. member b ''amount''))
              (\<lambda>a. member a ''amount''))
     (issued example_client (snd (create_transfer example_env example_client ''key-1'' ''GABC''
        (AmountDecimal (Finite False ''1250'' (- 2))) None))) = [Some (JStr ''12.50'')] \<and>
   Decimal_of_str ''12.50'' = Some (Finite False ''1250'' (- 2)) \<and>
   py_str True (AmountDecimal (Finite False ''125'' (- 1))) \<noteq>
     py_str True (AmountDecimal (Finite False ''1250'' (- 2)))"
proof -
  have wf: "well_formed (Finite False ''1250'' (- 2))" "well_formed (Finite False ''125'' (- 1))"
    by (simp_all add: wf_digits_def is_digit_def)
  have cap: "capitals example_env = True"
    by (simp add: example_env_def)
  note inst = create_transfer_amount_exact [where e = example_env and self = example_client
      and idempotency_key = "''key-1''" and account = "''GABC''"
      and amount = "AmountDecimal (Finite False ''1250'' (- 2))" and memo = None and c = True
      and d = "Finite False ''1250'' (- 2)" and d' = "Finite False ''125'' (- 1)"]
  from inst have twelve: "py_str True (AmountDecimal (Finite False ''1250'' (- 2))) = ''12.50''"
    by blast
  from inst have "map (\<lambda>r. Option.bind (Option.bind (req_json r) (\<lambda>b. member b ''amount''))
              (\<lambda>a. member a ''amount''))
     (issued example_client (snd (create_transfer example_env example_client ''key-1'' ''GABC''
        (AmountDecimal (Finite False ''1250'' (- 2))) None))) = [Some (JStr ''12.50'')]"
    unfolding cap twelve by blast
  moreover from inst wf(1) have "Decimal_of_str ''12.50'' = Some (Finite False ''1250'' (- 2))"
    unfolding twelve by blast
  moreover from inst wf have "py_str True (AmountDecimal (Finite False ''125'' (- 1))) \<noteq>
     py_str True (AmountDecimal (Finite False ''1250'' (- 2)))"
    by auto
  ultimately show ?thesis using wf(1) by blast
qed

text \<open>
  Claim C3. \<^verbatim>\<open>create_transfer\<close> posts, to the transfers path, the body with the caller's
  \<^verbatim>\<open>idempotencyKey\<close>, the source of type wallet with the configured wallet id, the
  destination of type blockchain on chain XLM with the given address and the memo (or the
  empty string when there is none) as \<^verbatim>\<open>addressTag\<close>, and the amount in USD.
\<close>

theorem create_transfer_body:
  "map (\<lambda>r. (req_method r, req_url r, req_json r))
     (issued self (snd (create_transfer e self idempotency_key account amount memo))) =
   [(''POST'', self_url self @ ''/transfers'',
     Some (JObj
       [(''idempotencyKey'', JStr idempotency_key),
        (''source'', JObj [(''type'', JStr ''wallet''), (''id'', JStr (self_wallet_id self))]),
        (''destination'',
           JObj [(''type'', JStr ''blockchain''), (''address'', JStr account),
                 (''chain'', JStr ''XLM''),
                 (''addressTag'', JStr (case memo of None \<Rightarrow> '''' | Some m \<Rightarrow> m))]),
        (''amount'', JObj [(''amount'', JStr (py_str (capitals e) amount)), (''currency'', JStr ''USD'')])]))]"
  by (simp add: create_transfer_sends Let_def issued_after_request or_empty_cases)

text \<open>
  Claim C4. \<^verbatim>\<open>create_address\<close> posts, to the addresses path of the configured wallet, the
  body of the caller's \<^verbatim>\<open>idempotencyKey\<close>, currency USD and chain XLM, whatever the caller
  passes.
\<close>

theorem create_address_body:
  "map (\<lambda>r. (req_method r, req_url r, req_json r))
     (issued self (snd (create_address e self idempotency_key))) =
   [(''POST'', self_url self @ ''/wallets/'' @ self_wallet_id self @ ''/addresses'',
     Some (JObj [(''idempotencyKey'', JStr idempotency_key), (''currency'', JStr ''USD''),
                 (''chain'', JStr ''XLM'')]))]"
  by (simp add: create_address_sends Let_def issued_after_request)

section \<open>Timeouts\<close>

text \<open>
  Claim C7. Each of the five operations gives the configured timeout to the request it
  sends, whatever the timeout is (also \<^verbatim>\<open>None\<close> or zero, where \<^verbatim>\<open>get_wallet\<close> and
  \<^verbatim>\<open>create_address\<close> leave their unused \<^verbatim>\<open>optional_kwargs\<close> empty); \<^verbatim>\<open>get_transfers\<close> sends
  its request unless the filters conflict.
\<close>

theorem timeout_passed_always:
  "map req_timeout (issued self (snd (get_transfers e self f t p w d s))) =
     (if truthy_str w \<and> (truthy_str d \<or> truthy_str s) then [] else [self_timeout self]) \<and>
   map req_timeout (issued self (snd (get_transfer e self transfer_id))) = [self_timeout self] \<and>
   map req_timeout (issued self (snd (create_transfer e self k account amount memo))) =
     [self_timeout self] \<and>
   map req_timeout (issued self (snd (get_wallet e self))) = [self_timeout self] \<and>
   map req_timeout (issued self (snd (create_address e self k))) = [self_timeout self]"
proof -
  have "map req_timeout (issued self (snd (get_transfers e self f t p w d s))) =
     (if truthy_str w \<and> (truthy_str d \<or> truthy_str s) then [] else [self_timeout self])"
  proof (cases "truthy_str w \<and> (truthy_str d \<or> truthy_str s)")
    case True
    then show ?thesis by (simp add: get_transfers_conflict issued_same)
  next
    case False
    then show ?thesis
      by (simp add: get_transfers_query issued_after_request transfers_request_def)
  qed
  then show ?thesis
    by (simp add: get_transfer_sends create_transfer_sends get_wallet_sends create_address_sends
          Let_def issued_after_request)
qed

section \<open>Construction\<close>

text \<open>
  Claim C6. Built without a session, the client's session has, mounted for both
  \<^verbatim>\<open>http://\<close> and \<^verbatim>\<open>https://\<close>, an adapter whose pool is of \<^verbatim>\<open>pool_size\<close> connections and
  whose retry policy has \<^verbatim>\<open>num_retries\<close> in total, the given backoff factor, no redirect,
  the methods GET and POST only, and no raising on status; and its headers hold the bearer
  authorisation of the API key, JSON for \<^verbatim>\<open>Accept\<close> and \<^verbatim>\<open>Content-Type\<close>, and the two
  identification headers. Given a session, the client keeps it as it is.
\<close>

theorem init_transport:
  "(let c = init e api_key api_url wallet_id timeout pool_size backoff_factor num_retries None;
        adapter = \<lparr>pool_connections = pool_size, pool_maxsize = pool_size,
                    max_retries = \<lparr>retry_total = num_retries,
                                    retry_backoff_factor = backoff_factor,
                                    retry_redirect = 0,
                                    retry_allowed_methods = {''GET'', ''POST''},
                                    retry_raise_on_status = False\<rparr>\<rparr>
    in adapters (self_session c) ''http://'' = Some adapter \<and>
       adapters (self_session c) ''https://'' = Some adapter \<and>
       headers (self_session c) ''Authorization'' = Some (''Bearer '' @ api_key) \<and>
       headers (self_session c) ''Accept'' = Some ''application/json'' \<and>
       headers (self_session c) ''Content-Type'' = Some ''application/json'' \<and>
       headers (self_session c) ''User-Agent'' = Some ''django-polaris-circle/CircleClient'' \<and>
       headers (self_session c) ''X-Client-Name'' = Some ''django-polaris-circle'' \<and>
       sent (self_session c) = sent (Session_new e) \<and>
       closed (self_session c) = closed (Session_new e)) \<and>
   self_session (init e api_key api_url wallet_id timeout pool_size backoff_factor num_retries
                   (Some injected)) = injected"
  by (simp add: init_def Let_def mount_def headers_update_def IDENTIFICATION_HEADERS_def)

section \<open>Scoped use\<close>

text \<open>
  Claim C8. Leaving the \<^verbatim>\<open>with\<close> block closes the session, whether the body returned or
  raised: \<^verbatim>\<open>__exit__\<close> calls \<^verbatim>\<open>close\<close> whatever it is given, \<^verbatim>\<open>close\<close> closes the session,
  and the exception of the body is passed on.
\<close>

theorem exit_closes_session:
  "closed (self_session (snd (with_client self body))) \<and>
   fst (with_client self body) =
     (case fst (body self) of Inl ex \<Rightarrow> Inl ex | Inr v \<Rightarrow> Inr (Some v)) \<and>
   exit_client self args = (False, close self) \<and>
   self_session (close self) = session_close (self_session self) \<and>
   closed (session_close s)"
  by (simp add: with_client_def enter_def exit_client_def close_def session_close_def Let_def
        split: prod.split sum.split)

section \<open>Falsy filters\<close>



section \<open>Timestamps on the wire\<close>

lemma strftime_valid_format:
  assumes v: "valid_datetime dt" and y: "p \<or> 1000 \<le> year dt"
  shows "is_circle_format (strftime p dt CIRCLE_DATETIME_FORMAT)"
    and "parse_circle (strftime p dt CIRCLE_DATETIME_FORMAT) = fields dt"
proof -
  let ?Y = "if p then zfill 4 (str_nat (year dt)) else str_nat (year dt)"
  have dim: "days_in_month (year dt) (month dt) \<le> 31"
    by (simp add: days_in_month_def)
  have y4: "length (str_nat (year dt)) \<le> 4"
    using v by (intro str_nat_length) (simp_all add: valid_datetime_def)
  have lenY: "length ?Y = 4"
  proof (cases p)
    case True
    then show ?thesis using y4 by (simp add: length_zfill)
  next
    case False
    with y have "10 ^ 3 \<le> year dt" by simp
    then have "3 < length (str_nat (year dt))" by (rule str_nat_length_ge)
    with y4 False show ?thesis by simp
  qed
  have len2: "length (zfill 2 (str_nat n)) = 2" if "n < 100" for n
    using that by (intro length_zfill str_nat_length) simp_all
  have lenM: "length (zfill 2 (str_nat (month dt))) = 2"
    and lenD: "length (zfill 2 (str_nat (day dt))) = 2"
    and lenH: "length (zfill 2 (str_nat (hour dt))) = 2"
    and lenMi: "length (zfill 2 (str_nat (minute dt))) = 2"
    and lenS: "length (zfill 2 (str_nat (second dt))) = 2"
    using v dim by (simp_all add: valid_datetime_def len2)
  have lenF: "length (zfill 6 (str_nat (microsecond dt))) = 6"
    using v by (intro length_zfill str_nat_length) (simp_all add: valid_datetime_def)
  have digY: "list_all is_digit ?Y"
    by (simp add: zfill_digits str_nat_digits)
  have valY: "nat_of_digits ?Y = year dt"
    by (simp add: nat_of_digits_zfill nat_of_digits_str_nat)
  note shape = assemble_format [OF lenY lenM lenD lenH lenMi lenS lenF digY
      zfill_digits [OF str_nat_digits] zfill_digits [OF str_nat_digits]
      zfill_digits [OF str_nat_digits] zfill_digits [OF str_nat_digits]
      zfill_digits [OF str_nat_digits] zfill_digits [OF str_nat_digits]]
  show "is_circle_format (strftime p dt CIRCLE_DATETIME_FORMAT)"
    unfolding strftime_circle by (rule shape(1))
  show "parse_circle (strftime p dt CIRCLE_DATETIME_FORMAT) = fields dt"
    unfolding strftime_circle shape(2)
    by (simp add: fields_def valY nat_of_digits_zfill nat_of_digits_str_nat)
qed

lemma param_from:
  "param (transfers_request e self (Some dt) t p w d s) ''from'' =
     Some (JStr (strftime (pad_year e) dt CIRCLE_DATETIME_FORMAT))"
  by (simp add: transfers_request_def transfers_query_def param_def dict_get_def)

lemma param_to:
  "param (transfers_request e self f (Some dt) p w d s) ''to'' =
     Some (JStr (strftime (pad_year e) dt CIRCLE_DATETIME_FORMAT))"
  by (cases f) (simp_all add: transfers_request_def transfers_query_def param_def dict_get_def)

lemma example_strftime:
  "strftime False example_datetime CIRCLE_DATETIME_FORMAT = ''2023-01-15T08:30:00.000000Z''"
  by code_simp

lemma example_strftime_999:
  "strftime False (example_datetime\<lparr>year := 999\<rparr>) CIRCLE_DATETIME_FORMAT = ''999-01-15T08:30:00.000000Z''"
  by code_simp

lemma example_valid: "valid_datetime example_datetime"
  by (simp add: valid_datetime_def example_datetime_def days_in_month_def)

lemma example_valid_999: "valid_datetime (example_datetime\<lparr>year := 999\<rparr>)"
  by (simp add: valid_datetime_def example_datetime_def days_in_month_def is_leap_def)


lemma example_fields: "fields example_datetime = (2023, 1, 15, 8, 30, 0, 0)"
  by (simp add: fields_def example_datetime_def)

lemma example_pad_year: "pad_year example_env = False"
  by (simp add: example_env_def)

text \<open>
  Claim C5, as amended. For every datetime the constructor accepts whose year has four
  digits (1000 to 9999), and for every such datetime whatever its year where the platform
  fills \<^verbatim>\<open>%Y\<close> to four digits, the \<^verbatim>\<open>from\<close> and the \<^verbatim>\<open>to\<close> parameter \<^verbatim>\<open>get_transfers\<close> sends for it
  is of the form \<^verbatim>\<open>YYYY-MM-DDTHH:MM:SS.ffffffZ\<close>, 27 characters with six digits of
  microseconds and the final \<^verbatim>\<open>Z\<close>, and its seven fields read back as those of the
  datetime.
\<close>

theorem datetime_filter_format:
  assumes "valid_datetime dt"
    and "pad_year e \<or> 1000 \<le> year dt"
    and "\<not> (truthy_str w \<and> (truthy_str d \<or> truthy_str s))"
  shows "(let v = strftime (pad_year e) dt CIRCLE_DATETIME_FORMAT
          in map (\<lambda>r. param r ''from'')
               (issued self (snd (get_transfers e self (Some dt) t p w d s))) = [Some (JStr v)] \<and>
             map (\<lambda>r. param r ''to'')
               (issued self (snd (get_transfers e self f (Some dt) p w d s))) = [Some (JStr v)] \<and>
             is_circle_format v \<and> parse_circle v = fields dt)"
  using assms
  by (simp add: Let_def get_transfers_query issued_after_request param_from param_to
        strftime_valid_format)

text \<open>The theorem at 2023-01-15 08:30:00, by the GNU C library's \<^verbatim>\<open>%Y\<close>.\<close>

theorem datetime_filter_format_witness:
  "map (\<lambda>r. param r ''from'')
     (issued example_client (snd (get_transfers example_env example_client
        (Some example_datetime) None None None None None))) =
     [Some (JStr ''2023-01-15T08:30:00.000000Z'')] \<and>
   map (\<lambda>r. param r ''to'')
     (issued example_client (snd (get_transfers example_env example_client None
        (Some example_datetime) None None None None))) =
     [Some (JStr ''2023-01-15T08:30:00.000000Z'')] \<and>
   is_circle_format ''2023-01-15T08:30:00.000000Z'' \<and>
   parse_circle ''2023-01-15T08:30:00.000000Z'' = (2023, 1, 15, 8, 30, 0, 0)"
proof -
  have y: "pad_year example_env \<or> 1000 \<le> year example_datetime"
    by (simp add: example_datetime_def)
  have n: "\<not> (truthy_str None \<and> (truthy_str None \<or> truthy_str None))"
    by simp
  show ?thesis
    using datetime_filter_format [OF example_valid y n, of example_client None None None]
    by (simp add: Let_def example_pad_year example_strftime example_fields)
qed

text \<open>
  Claim C5 as it is written speaks of every datetime. Where \<^verbatim>\<open>%Y\<close> is not filled, the
  year 999 is written with three digits and the parameter has 26 characters: it is not of
  the format.
\<close>

theorem three_digit_year_breaks_format:
  "valid_datetime (example_datetime\<lparr>year := 999\<rparr>) \<and>
   map (\<lambda>r. param r ''from'')
     (issued example_client (snd (get_transfers example_env example_client
        (Some (example_datetime\<lparr>year := 999\<rparr>)) None None None None None))) =
     [Some (JStr ''999-01-15T08:30:00.000000Z'')] \<and>
   \<not> is_circle_format ''999-01-15T08:30:00.000000Z''"
  by (simp add: example_valid_999 get_transfers_query issued_after_request param_from
        example_pad_year example_strftime_999 is_circle_format_def)



end
